theory Spec2Isabelle
  imports Complex_Main "HOL-Library.Sublist"
begin

section \<open>JavaScript strings\<close>

text \<open>
  A JavaScript string is modelled as a \<^typ>\<open>string\<close>: a \<^typ>\<open>char\<close> stands for the code
  unit of the same number, so the model covers the strings whose code units are below 256.
  The one character of the sources outside that range, an em dash in a CSS comment of the
  page template, is written as the three bytes of its UTF-8 encoding.
\<close>

definition isWhiteSpace :: "char \<Rightarrow> bool" where
  \<comment> \<open>The WhiteSpace and LineTerminator code units below 256 (TAB, LF, VT, FF, CR, SP, NBSP).\<close>
  "isWhiteSpace c \<longleftrightarrow>
     c \<in> set [CHR 0x09, CHR 0x0A, CHR 0x0B, CHR 0x0C, CHR 0x0D, CHR 0x20, CHR 0xA0]"

definition trim :: "string \<Rightarrow> string" where
  \<comment> \<open>\<^verbatim>\<open>String.prototype.trim\<close>\<close>
  "trim s = rev (dropWhile isWhiteSpace (rev (dropWhile isWhiteSpace s)))"

definition str_includes :: "string \<Rightarrow> string \<Rightarrow> bool" where
  \<comment> \<open>\<^verbatim>\<open>s.includes(pat)\<close>\<close>
  "str_includes s pat \<longleftrightarrow> sublist pat s"

primrec lastIndexFrom :: "string \<Rightarrow> string \<Rightarrow> nat \<Rightarrow> int" where
  "lastIndexFrom pat s 0 = (if prefix pat s then 0 else - 1)"
| "lastIndexFrom pat s (Suc i) =
     (if prefix pat (drop (Suc i) s) then int (Suc i) else lastIndexFrom pat s i)"

definition lastIndexOf :: "string \<Rightarrow> string \<Rightarrow> int" where
  \<comment> \<open>\<^verbatim>\<open>s.lastIndexOf(pat)\<close>: the greatest index at which \<open>pat\<close> starts, or \<open>-1\<close>.\<close>
  "lastIndexOf s pat = lastIndexFrom pat s (length s)"

definition slice0 :: "string \<Rightarrow> int \<Rightarrow> string" where
  \<comment> \<open>\<^verbatim>\<open>s.slice(0, e)\<close>; a negative \<open>e\<close> counts from the end.\<close>
  "slice0 s e = (if e < 0 then take (length s - nat (- e)) s else take (nat e) s)"

fun digits :: "nat \<Rightarrow> string" where
  "digits n = (if n < 10 then [''0123456789'' ! n]
               else digits (n div 10) @ [''0123456789'' ! (n mod 10)])"

definition numberToString :: "int \<Rightarrow> string" where
  \<comment> \<open>How a template literal renders an integer-valued number of magnitude below \<open>10^21\<close>
      (file sizes and timestamps are such numbers).\<close>
  "numberToString i = (if i < 0 then ''-'' @ digits (nat (- i)) else digits (nat i))"

definition booleanToString :: "bool \<Rightarrow> string" where
  "booleanToString b = (if b then ''true'' else ''false'')"

definition joinLines :: "string list \<Rightarrow> string" where
  \<comment> \<open>The text of consecutive source lines, each ended by its line feed.\<close>
  "joinLines ls = concat (map (\<lambda>l. l @ [CHR 0x0A]) ls)"


section \<open>The style template builder (convert.ts)\<close>

text \<open>
  \<^verbatim>\<open>htmlTemplate\<close> is one template literal. Its text is given line by line: the lines
  from the document type to the meta element, the theme rules up to the conditional
  expression, the rules of the conditional expression's first branch, and the rules after
  it up to the end of the style element.
\<close>

definition documentHead :: "string list" where
  \<open>documentHead =
   [''<!DOCTYPE html>'',
    ''<html>'',
    ''<head>'',
    ''<meta charset="utf-8">'']\<close>

definition themeRules :: "string list" where
  \<open>themeRules =
   [''  @import url('https://fonts.googleapis.com/css2?family=Inter:wght@400;500;600;700&family=Fira+Code:wght@400;500&display=swap');'',
    '''',
    ''  :root {'',
    ''    --text: #1a1a2e;'',
    ''    --text-secondary: #4a4a6a;'',
    ''    --bg: #ffffff;'',
    ''    --accent: #4361ee;'',
    ''    --border: #e2e8f0;'',
    ''    --code-bg: #f8fafc;'',
    ''    --blockquote-border: #4361ee;'',
    ''    --blockquote-bg: #f0f4ff;'',
    ''  }'',
    '''',
    ''  * { margin: 0; padding: 0; box-sizing: border-box; }'',
    '''',
    ''  body {'',
    ''    font-family: 'Inter', -apple-system, BlinkMacSystemFont, 'Segoe UI', sans-serif;'',
    ''    color: var(--text);'',
    ''    background: var(--bg);'',
    ''    line-height: 1.75;'',
    ''    font-size: 15px;'',
    ''    padding: 60px 72px;'',
    ''    max-width: 900px;'',
    ''    margin: 0 auto;'',
    ''  }'',
    '''',
    ''  h1, h2, h3, h4, h5, h6 {'',
    ''    color: var(--text);'',
    ''    font-weight: 700;'',
    ''    line-height: 1.3;'',
    ''    margin-top: 2em;'',
    ''    margin-bottom: 0.75em;'',
    ''  }'',
    '''',
    ''  h1 {'',
    ''    font-size: 2.25em;'',
    ''    border-bottom: 3px solid var(--accent);'',
    ''    padding-bottom: 0.4em;'',
    ''    margin-top: 0;'',
    ''  }'',
    '''',
    ''  h2 {'',
    ''    font-size: 1.65em;'',
    ''    border-bottom: 1px solid var(--border);'',
    ''    padding-bottom: 0.3em;'',
    ''  }'',
    '''',
    ''  h3 { font-size: 1.35em; }'',
    ''  h4 { font-size: 1.15em; }'',
    '''',
    ''  p { margin-bottom: 1em; }'',
    '''',
    ''  a {'',
    ''    color: var(--accent);'',
    ''    text-decoration: none;'',
    ''    border-bottom: 1px solid transparent;'',
    ''    transition: border-color 0.2s;'',
    ''  }'',
    ''  a:hover { border-bottom-color: var(--accent); }'',
    '''',
    ''  strong { font-weight: 600; }'',
    '''',
    ''  blockquote {'',
    ''    border-left: 4px solid var(--blockquote-border);'',
    ''    background: var(--blockquote-bg);'',
    ''    padding: 1em 1.5em;'',
    ''    margin: 1.5em 0;'',
    ''    border-radius: 0 8px 8px 0;'',
    ''    color: var(--text-secondary);'',
    ''  }'',
    ''  blockquote p:last-child { margin-bottom: 0; }'',
    '''',
    ''  code {'',
    ''    font-family: 'Fira Code', 'Cascadia Code', 'JetBrains Mono', monospace;'',
    ''    font-size: 0.88em;'',
    ''    background: var(--code-bg);'',
    ''    padding: 0.2em 0.45em;'',
    ''    border-radius: 4px;'',
    ''    border: 1px solid var(--border);'',
    ''  }'',
    '''',
    ''  pre {'',
    ''    background: #1e293b;'',
    ''    color: #e2e8f0;'',
    ''    border-radius: 10px;'',
    ''    padding: 1.25em 1.5em;'',
    ''    margin: 1.5em 0;'',
    ''    overflow-x: auto;'',
    ''    line-height: 1.6;'',
    ''    box-shadow: 0 4px 6px -1px rgba(0,0,0,0.1);'',
    ''  }'',
    '''',
    ''  pre code {'',
    ''    background: none;'',
    ''    border: none;'',
    ''    padding: 0;'',
    ''    color: inherit;'',
    ''    font-size: 0.85em;'',
    ''  }'',
    '''',
    ''  /* highlight.js One Dark-ish theme for code blocks */'',
    ''  .hljs-keyword, .hljs-selector-tag { color: #c678dd; }'',
    ''  .hljs-string, .hljs-template-variable { color: #98c379; }'',
    ''  .hljs-number, .hljs-literal { color: #d19a66; }'',
    ''  .hljs-comment { color: #5c6370; font-style: italic; }'',
    ''  .hljs-function .hljs-title, .hljs-title.function_ { color: #61afef; }'',
    ''  .hljs-built_in { color: #e5c07b; }'',
    ''  .hljs-attr { color: #d19a66; }'',
    ''  .hljs-type, .hljs-class .hljs-title { color: #e5c07b; }'',
    ''  .hljs-params { color: #abb2bf; }'',
    ''  .hljs-meta { color: #61afef; }'',
    ''  .hljs-tag { color: #e06c75; }'',
    ''  .hljs-name { color: #e06c75; }'',
    ''  .hljs-attribute { color: #d19a66; }'',
    '''',
    ''  ul, ol {'',
    ''    margin: 1em 0;'',
    ''    padding-left: 2em;'',
    ''  }'',
    '''',
    ''  li { margin-bottom: 0.4em; }'',
    ''  li > ul, li > ol { margin: 0.3em 0; }'',
    '''',
    ''  table {'',
    ''    width: 100%;'',
    ''    border-collapse: collapse;'',
    ''    margin: 1.5em 0;'',
    ''    font-size: 0.93em;'',
    ''  }'',
    '''',
    ''  th {'',
    ''    background: #f1f5f9;'',
    ''    font-weight: 600;'',
    ''    text-align: left;'',
    ''    padding: 0.75em 1em;'',
    ''    border-bottom: 2px solid var(--border);'',
    ''  }'',
    '''',
    ''  td {'',
    ''    padding: 0.65em 1em;'',
    ''    border-bottom: 1px solid var(--border);'',
    ''  }'',
    '''',
    ''  tr:hover td { background: #f8fafc; }'',
    '''',
    ''  img {'',
    ''    max-width: 100%;'',
    ''    width: 100%;'',
    ''    height: auto;'',
    ''    border-radius: 8px;'',
    ''    margin: 1em 0;'',
    ''    display: block;'',
    ''  }'',
    '''',
    ''  svg {'',
    ''    max-width: 100%;'',
    ''    height: auto;'',
    ''    display: block;'',
    ''  }'',
    '''',
    ''  figure {'',
    ''    max-width: 100%;'',
    ''    margin: 1em 0;'',
    ''  }'',
    '''']\<close>

definition paginationRules :: "string list" where
  \<open>paginationRules =
   [''  img {'',
    ''    max-height: 200mm;'',
    ''    page-break-inside: avoid;'',
    ''    break-inside: avoid;'',
    ''    page-break-before: auto;'',
    ''    page-break-after: auto;'',
    ''  }'',
    '''',
    ''  /* Markdown renders images inside <p> tags '' @ [CHR 0xE2, CHR 0x80, CHR 0x94] @ '' the container must also avoid splits */'',
    ''  p:has(> img) {'',
    ''    page-break-inside: avoid;'',
    ''    break-inside: avoid;'',
    ''  }'',
    '''',
    ''  figure img,'',
    ''  svg {'',
    ''    max-height: 200mm;'',
    ''  }'',
    '''',
    ''  figure,'',
    ''  svg,'',
    ''  pre,'',
    ''  table,'',
    ''  blockquote {'',
    ''    page-break-inside: avoid;'',
    ''    break-inside: avoid;'',
    ''  }'']\<close>

definition themeTail :: "string list" where
  \<open>themeTail =
   ['''',
    ''  h1, h2, h3, h4, h5, h6 {'',
    ''    page-break-after: avoid;'',
    ''    break-after: avoid;'',
    ''  }'',
    '''',
    ''  hr {'',
    ''    border: none;'',
    ''    border-top: 2px solid var(--border);'',
    ''    margin: 2.5em 0;'',
    ''  }'',
    '''',
    ''  /* Checklist */'',
    ''  ul:has(> li > input[type="checkbox"]) {'',
    ''    list-style: none;'',
    ''    padding-left: 0.5em;'',
    ''  }'']\<close>

record resolved_options =
  preventImageSplit :: bool

definition paginationBlock :: string where
  \<comment> \<open>The text the conditional expression yields when the option is set: from the line
      feed after its opening backtick to the indentation before its closing one.\<close>
  "paginationBlock = [CHR 0x0A] @ joinLines paginationRules @ ''  ''"

definition htmlTemplate :: "string \<Rightarrow> resolved_options \<Rightarrow> string" where
  "htmlTemplate body options =
     joinLines documentHead @ ''<style>'' @ [CHR 0x0A] @
     joinLines themeRules @ ''  '' @
     (if preventImageSplit options then paginationBlock else []) @ [CHR 0x0A] @
     joinLines themeTail @ ''</style>'' @ [CHR 0x0A] @
     ''</head>'' @ [CHR 0x0A] @
     ''<body>'' @ body @ ''</body>'' @ [CHR 0x0A] @
     ''</html>''"







section \<open>The conversion pipeline (convert.ts)\<close>

text \<open>
  Everything the server awaits is a call into a collaborator (the request body, the
  markdown parser, the browser). The model records each such call in a trace, in program
  order, and takes its outcome, a value or a thrown exception, from an environment: one
  field for each call site of one conversion.
\<close>

datatype exn = Exn string

type_synonym bytes = string

type_synonym browser = nat

datatype format = Pdf | Png

definition formatString :: "format \<Rightarrow> string" where
  "formatString f = (case f of Pdf \<Rightarrow> ''pdf'' | Png \<Rightarrow> ''png'')"

datatype server_op =
    FormDataRead
  | JsonRead
  | FileTextRead
  | ConsoleError exn
  | MarkedParse string
  | Launch bool "string list"
  | NewPage browser
  | SetContent string string
  | PagePdf string bool "string list"
  | SetViewport nat int
  | QuerySelector string
  | BoundingBox
  | Screenshot string bool bool
  | PageClose

record env =
  env_parse :: "string \<Rightarrow> exn + string"
  env_launch :: "nat \<Rightarrow> exn option"
  env_connected :: "browser \<Rightarrow> bool"
  env_newPage :: "exn + unit"
  env_setContent :: "exn + unit"
  env_pdf :: "exn + bytes"
  env_setViewport1 :: "exn + unit"
  env_query :: "exn + unit option"
  env_boundingBox :: "exn + real option"
  env_setViewport2 :: "exn + unit"
  env_screenshot :: "exn + bytes"
  env_close :: "exn + unit"

text \<open>
  \<open>browserInstance\<close> is the module's variable. A browser is named by the number of the
  launch that started its process, so two launches never yield the same browser;
  \<open>launched\<close> counts the launches so far.
\<close>

record server_state =
  browserInstance :: "browser option"
  launched :: nat
  trace :: "server_op list"

type_synonym 'a io = "server_state \<Rightarrow> (exn + 'a) \<times> server_state"

definition ret :: "'a \<Rightarrow> 'a io" where
  "ret x = (\<lambda>s. (Inr x, s))"

definition throw :: "exn \<Rightarrow> 'a io" where
  "throw e = (\<lambda>s. (Inl e, s))"

definition bind_io :: "'a io \<Rightarrow> ('a \<Rightarrow> 'b io) \<Rightarrow> 'b io" where
  "bind_io m f = (\<lambda>s. case m s of (Inl e, s') \<Rightarrow> (Inl e, s') | (Inr x, s') \<Rightarrow> f x s')"

definition effect :: "server_op \<Rightarrow> exn + 'a \<Rightarrow> 'a io" where
  \<comment> \<open>An awaited call into a collaborator: it is recorded, then settles with its outcome.\<close>
  "effect op outcome = (\<lambda>s. (outcome, s\<lparr>trace := trace s @ [op]\<rparr>))"

definition try_finally :: "'a io \<Rightarrow> unit io \<Rightarrow> 'a io" where
  \<comment> \<open>\<^verbatim>\<open>try { m } finally { c }\<close>: \<open>c\<close> runs however \<open>m\<close> ends; an exception of \<open>c\<close>
      replaces the outcome of \<open>m\<close>.\<close>
  "try_finally m c =
     (\<lambda>s. case m s of (r, s') \<Rightarrow>
        (case c s' of (Inl e, s'') \<Rightarrow> (Inl e, s'') | (Inr _, s'') \<Rightarrow> (r, s'')))"

definition try_catch :: "'a io \<Rightarrow> (exn \<Rightarrow> 'a io) \<Rightarrow> 'a io" where
  "try_catch m h = (\<lambda>s. case m s of (Inl e, s') \<Rightarrow> h e s' | (Inr x, s') \<Rightarrow> (Inr x, s'))"

subsection \<open>The browser session\<close>

text \<open>
  \<^verbatim>\<open>getBrowser\<close> is an async function with one \<^verbatim>\<open>await\<close>, so it runs in two
  uninterrupted segments. The first tests the variable and either returns it or starts a
  launch and suspends; the second runs when the launch has settled: it assigns the
  variable and returns it. Other code of the server may run between the two.
\<close>

datatype 'a segment = Returned 'a | AwaitingLaunch nat

definition getBrowser_enter :: "env \<Rightarrow> server_state \<Rightarrow> browser segment \<times> server_state" where
  "getBrowser_enter env s =
     (let launching =
        (AwaitingLaunch (launched s),
         s\<lparr>launched := Suc (launched s),
           trace := trace s @ [Launch True [''--no-sandbox'', ''--disable-setuid-sandbox'']]\<rparr>)
      in case browserInstance s of
           None \<Rightarrow> launching
         | Some b \<Rightarrow> if \<not> env_connected env b then launching else (Returned b, s))"

definition getBrowser_resume :: "env \<Rightarrow> nat \<Rightarrow> browser io" where
  "getBrowser_resume env k s =
     (case env_launch env k of
        Some e \<Rightarrow> (Inl e, s)
      | None \<Rightarrow> (Inr k, s\<lparr>browserInstance := Some k\<rparr>))"

definition getBrowser :: "env \<Rightarrow> browser io" where
  \<comment> \<open>A call that nothing interleaves with.\<close>
  "getBrowser env s =
     (case getBrowser_enter env s of
        (Returned b, s') \<Rightarrow> (Inr b, s')
      | (AwaitingLaunch k, s') \<Rightarrow> getBrowser_resume env k s')"

text \<open>
  Two calls in flight. A schedule says which call runs its next segment; a call that has
  settled does nothing more.
\<close>

datatype call = NotCalled | Suspended nat | Settled "exn + browser"

record two_calls =
  callA :: call
  callB :: call
  server :: server_state

definition step_call :: "env \<Rightarrow> call \<Rightarrow> server_state \<Rightarrow> call \<times> server_state" where
  "step_call env c s =
     (case c of
        NotCalled \<Rightarrow>
          (case getBrowser_enter env s of
             (Returned b, s') \<Rightarrow> (Settled (Inr b), s')
           | (AwaitingLaunch k, s') \<Rightarrow> (Suspended k, s'))
      | Suspended k \<Rightarrow> (case getBrowser_resume env k s of (r, s') \<Rightarrow> (Settled r, s'))
      | Settled r \<Rightarrow> (Settled r, s))"

datatype caller = A | B

fun run_calls :: "env \<Rightarrow> caller list \<Rightarrow> two_calls \<Rightarrow> two_calls" where
  "run_calls env [] w = w"
| "run_calls env (A # sched) w =
     (case step_call env (callA w) (server w) of
        (c, s') \<Rightarrow> run_calls env sched (w\<lparr>callA := c, server := s'\<rparr>))"
| "run_calls env (B # sched) w =
     (case step_call env (callB w) (server w) of
        (c, s') \<Rightarrow> run_calls env sched (w\<lparr>callB := c, server := s'\<rparr>))"

subsection \<open>One conversion\<close>

record convert_options =
  preventImageSplit_opt :: "bool option"

definition capturePng :: "env \<Rightarrow> bytes io" where
  \<comment> \<open>The \<^verbatim>\<open>else\<close> branch of \<^verbatim>\<open>convertMarkdown\<close>. \<^verbatim>\<open>page.$\<close> may yield null and
      so may \<^verbatim>\<open>boundingBox\<close>; reading a property of null throws a TypeError. The
      measured height is a finite number, read as the real it denotes. \<^verbatim>\<open>Math.ceil\<close>
      is exact on it; the sum with 40 is a sum of doubles and is the exact one only as long
      as it does not exceed \<open>2^53\<close>, so the model stands for the code on the heights
      with \<open>\<lceil>height\<rceil> + 40 \<le> 2^53\<close> and on no others.\<close>
  "capturePng env =
     bind_io (effect (SetViewport 900 100) (env_setViewport1 env)) (\<lambda>_.
     bind_io (effect (QuerySelector ''body'') (env_query env)) (\<lambda>bodyHandle.
     bind_io (case bodyHandle of
                None \<Rightarrow> throw (Exn ''TypeError'')
              | Some _ \<Rightarrow> effect BoundingBox (env_boundingBox env)) (\<lambda>box.
     case box of
       None \<Rightarrow> throw (Exn ''TypeError'')
     | Some height \<Rightarrow>
         bind_io (effect (SetViewport 900 (\<lceil>height\<rceil> + 40)) (env_setViewport2 env)) (\<lambda>_.
         effect (Screenshot ''png'' True False) (env_screenshot env)))))"

definition printPdf :: "env \<Rightarrow> bytes io" where
  "printPdf env = effect (PagePdf ''A4'' True [''20mm'', ''20mm'', ''15mm'', ''15mm'']) (env_pdf env)"

definition renderPage :: "env \<Rightarrow> string \<Rightarrow> format \<Rightarrow> bytes io" where
  \<comment> \<open>The \<^verbatim>\<open>try\<close> block of \<^verbatim>\<open>convertMarkdown\<close>.\<close>
  "renderPage env fullHtml fmt =
     bind_io (effect (SetContent fullHtml ''networkidle0'') (env_setContent env)) (\<lambda>_.
     if fmt = Pdf then printPdf env else capturePng env)"

definition convertMarkdown :: "env \<Rightarrow> string \<Rightarrow> format \<Rightarrow> convert_options \<Rightarrow> bytes io" where
  "convertMarkdown env markdown fmt options =
     (let resolvedOptions =
        \<lparr>preventImageSplit = (case preventImageSplit_opt options of None \<Rightarrow> True | Some b \<Rightarrow> b)\<rparr>
      in
      bind_io (effect (MarkedParse markdown) (env_parse env markdown)) (\<lambda>htmlBody.
      let fullHtml = htmlTemplate htmlBody resolvedOptions in
      bind_io (getBrowser env) (\<lambda>browser.
      bind_io (effect (NewPage browser) (env_newPage env)) (\<lambda>page.
      try_finally (renderPage env fullHtml fmt) (effect PageClose (env_close env))))))"


section \<open>The HTTP endpoint (index.ts)\<close>

definition MAX_SIZE :: nat where
  "MAX_SIZE = 5 * 1024 * 1024"

text \<open>
  An uploaded file as the handler sees it: its size, and what reading its text yields. A
  form field holds a string or a file; \<^verbatim>\<open>formData.get\<close> returns the first value
  stored under a name, or null.
\<close>

record upload =
  upload_size :: nat
  upload_text :: "exn + string"

datatype form_value = FString string | FFile upload

type_synonym form_data = "(string \<times> form_value) list"

datatype json =
    JNull
  | JBool bool
  | JNumber real
  | JString string
  | JArray "json list"
  | JObject "(string \<times> json) list"

record request =
  contentType :: "string option"
  formData :: "exn + form_data"
  jsonBody :: "exn + json"

text \<open>
  The variable \<open>markdown\<close> is typed as a string, but the casts of the handler are not
  checked at run time: it can come to hold a file or a JSON value that is no string. Such
  a value has no \<^verbatim>\<open>trim\<close> method.
\<close>

datatype js_value = JsString string | JsOther

datatype response =
    ErrorResponse nat string
  | FileResponse bytes "(string \<times> string) list"

definition getProperty :: "json \<Rightarrow> string \<Rightarrow> exn + json option" where
  \<comment> \<open>\<^verbatim>\<open>body.key\<close> for one of the three keys the handler reads: reading a property of
      null throws, an object yields the last value parsed under the key, and any other
      value yields undefined.\<close>
  "getProperty body k =
     (case body of
        JNull \<Rightarrow> Inl (Exn ''TypeError'')
      | JObject kvs \<Rightarrow> Inr (map_of (rev kvs) k)
      | _ \<Rightarrow> Inr None)"

definition resolveMultipart ::
  "form_data \<Rightarrow> (response + js_value \<times> format \<times> bool) io" where
  "resolveMultipart fd =
     (let file = map_of fd ''file'';
          text' = map_of fd ''markdown'';
          fmt = (if map_of fd ''format'' = Some (FString ''png'') then Png else Pdf);
          preventImageSplit' = (map_of fd ''preventImageSplit'' \<noteq> Some (FString ''false''));
          fromText =
            (case text' of
               Some (FString t) \<Rightarrow> if t \<noteq> [] then JsString t else JsString []
             | Some (FFile _) \<Rightarrow> JsOther
             | None \<Rightarrow> JsString [])
      in case file of
           Some (FFile f) \<Rightarrow>
             if upload_size f > 0 then
               if upload_size f > MAX_SIZE
               then ret (Inl (ErrorResponse 400 ''File too large (max 5MB)''))
               else bind_io (effect FileTextRead (upload_text f)) (\<lambda>content.
                      ret (Inr (JsString content, fmt, preventImageSplit')))
             else ret (Inr (fromText, fmt, preventImageSplit'))
         | _ \<Rightarrow> ret (Inr (fromText, fmt, preventImageSplit')))"

definition resolveJson :: "json \<Rightarrow> (response + js_value \<times> format \<times> bool) io" where
  "resolveJson body =
     (case getProperty body ''markdown'' of
        Inl e \<Rightarrow> throw e
      | Inr md \<Rightarrow>
          (case getProperty body ''format'' of
             Inl e \<Rightarrow> throw e
           | Inr fm \<Rightarrow>
               (case getProperty body ''preventImageSplit'' of
                  Inl e \<Rightarrow> throw e
                | Inr pv \<Rightarrow>
                    ret (Inr
                      (case md of
                         None \<Rightarrow> JsString []
                       | Some JNull \<Rightarrow> JsString []
                       | Some (JString m) \<Rightarrow> JsString m
                       | Some _ \<Rightarrow> JsOther,
                       if fm = Some (JString ''png'') then Png else Pdf,
                       pv \<noteq> Some (JBool False))))))"

definition resolveRequest :: "request \<Rightarrow> (response + js_value \<times> format \<times> bool) io" where
  \<comment> \<open>The handler from reading the content type to the end of the two branches: an early
      response, or the values of \<open>markdown\<close>, \<open>format\<close> and \<open>preventImageSplit\<close>.\<close>
  "resolveRequest req =
     (let contentType' = (case contentType req of None \<Rightarrow> [] | Some c \<Rightarrow> c) in
      if str_includes contentType' ''multipart/form-data''
      then bind_io (effect FormDataRead (formData req)) resolveMultipart
      else bind_io (effect JsonRead (jsonBody req)) resolveJson)"

definition POST :: "env \<Rightarrow> request \<Rightarrow> response io" where
  \<open>POST env req =
     try_catch
       (bind_io (resolveRequest req) (\<lambda>resolved.
          case resolved of
            Inl early \<Rightarrow> ret early
          | Inr (markdown, fmt, preventImageSplit') \<Rightarrow>
              (case markdown of
                 JsOther \<Rightarrow> throw (Exn ''TypeError'')
               | JsString m \<Rightarrow>
                   if trim m = []
                   then ret (ErrorResponse 400 ''No markdown content provided'')
                   else
                     bind_io (convertMarkdown env m fmt
                                \<lparr>preventImageSplit_opt = Some preventImageSplit'\<rparr>) (\<lambda>result.
                     ret (FileResponse result
                       [(''Content-Type'',
                           if fmt = Pdf then ''application/pdf'' else ''image/png''),
                        (''Content-Disposition'',
                           ''attachment; filename="document.'' @ formatString fmt @ ''"''),
                        (''Content-Length'', numberToString (int (length result)))])))))
       (\<lambda>err.
          bind_io (effect (ConsoleError err) (Inr ())) (\<lambda>_.
          ret (ErrorResponse 500 ''Conversion failed. Please try again.'')))\<close>

definition pipeline_op :: "server_op \<Rightarrow> bool" where
  \<comment> \<open>The calls of the rendering pipeline, as opposed to reading the request.\<close>
  "pipeline_op op =
     (case op of
        FormDataRead \<Rightarrow> False
      | JsonRead \<Rightarrow> False
      | FileTextRead \<Rightarrow> False
      | ConsoleError _ \<Rightarrow> False
      | _ \<Rightarrow> True)"


definition emits :: "(server_op \<Rightarrow> bool) \<Rightarrow> 'a io \<Rightarrow> bool" where
  \<comment> \<open>From every state, the computation leaves the state as it was but for the trace, to
      which it adds only calls that satisfy \<open>P\<close>.\<close>
  "emits P m \<longleftrightarrow> (\<forall>s. \<exists>ops. snd (m s) = s\<lparr>trace := trace s @ ops\<rparr> \<and> list_all P ops)"

subsection \<open>Example inputs\<close>

text \<open>
  A server that has not launched a browser yet, and collaborators that all succeed: the
  parser wraps the text in a paragraph, every launch succeeds and every browser stays
  connected, and the body's measured height is zero.
\<close>

definition fresh_server :: server_state where
  "fresh_server = \<lparr>browserInstance = None, launched = 0, trace = []\<rparr>"

definition example_env :: env where
  "example_env =
     \<lparr>env_parse = (\<lambda>m. Inr (''<p>'' @ m @ ''</p>'')),
      env_launch = (\<lambda>_. None),
      env_connected = (\<lambda>_. True),
      env_newPage = Inr (),
      env_setContent = Inr (),
      env_pdf = Inr ''%PDF-'',
      env_setViewport1 = Inr (),
      env_query = Inr (Some ()),
      env_boundingBox = Inr (Some 0),
      env_setViewport2 = Inr (),
      env_screenshot = Inr ''PNG'',
      env_close = Inr ()\<rparr>"

text \<open>
  Three requests: a multipart upload of 6 MiB, a JSON body whose markdown is white space
  with the PNG format asked for, and a multipart form with an empty file beside a text
  field.
\<close>

definition oversized_request :: request where
  "oversized_request =
     \<lparr>contentType = Some ''multipart/form-data; boundary=x'',
      formData = Inr [(''format'', FString ''png''),
                      (''file'', FFile \<lparr>upload_size = 6291456, upload_text = Inr ''# Big''\<rparr>)],
      jsonBody = Inl (Exn ''SyntaxError'')\<rparr>"

definition blank_request :: request where
  "blank_request =
     \<lparr>contentType = Some ''application/json'',
      formData = Inl (Exn ''TypeError''),
      jsonBody = Inr (JObject [(''markdown'', JString [CHR 0x20, CHR 0x0A, CHR 0x09]),
                               (''format'', JString ''png'')])\<rparr>"

definition empty_file_request :: request where
  "empty_file_request =
     \<lparr>contentType = Some ''multipart/form-data; boundary=x'',
      formData = Inr [(''file'', FFile \<lparr>upload_size = 0, upload_text = Inr []\<rparr>),
                      (''markdown'', FString ''# Hi''),
                      (''format'', FString ''png'')],
      jsonBody = Inl (Exn ''SyntaxError'')\<rparr>"


section \<open>The client (App.tsx)\<close>

text \<open>
  The component's state, as the \<^verbatim>\<open>useState\<close> hooks hold it. A handler reads the state
  of the render it was created in and calls setters; the model runs a handler to its end
  from the state at its call and returns the state the setters leave, with the requests
  it sent and the files it saved, in order.
\<close>

type_synonym blob = string

datatype input_tab = PasteTab | UploadTab

datatype tab = Input input_tab | Settings

record client_file =
  file_name :: string
  file_size :: nat
  file_lastModified :: int

datatype conversion_source = Upload client_file | Paste string

record converted_bundle =
  sourceKey :: string
  pdf :: blob
  png :: blob

record app_state =
  tab :: tab
  lastInputTab :: input_tab
  markdown :: string
  file' :: "client_file option"
  format :: format
  ui_preventImageSplit :: bool
  loading :: bool
  error :: string
  convertedBundle :: "converted_bundle option"

text \<open>
  The form a conversion request carries, and how \<^verbatim>\<open>fetch\<close> can end: it rejects, or
  it resolves with a response that is not ok, whose body read as JSON throws or yields an
  \<open>error\<close> field (the empty string stands for every falsy value), or with one that is
  ok, whose body is read as a blob.
\<close>

record client_request =
  rq_format :: string
  rq_preventImageSplit :: string
  rq_file :: "client_file option"
  rq_markdown :: "string option"

datatype fetch_result =
    Rejected exn
  | NotOk "exn + string"
  | Ok "exn + blob"

datatype client_op = Fetch client_request | SaveAs string blob

definition activeInputTab :: "app_state \<Rightarrow> input_tab" where
  "activeInputTab st = (case tab st of Settings \<Rightarrow> lastInputTab st | Input t \<Rightarrow> t)"

definition getSourceKey :: "app_state \<Rightarrow> conversion_source \<Rightarrow> string" where
  "getSourceKey st source =
     (case source of
        Upload f \<Rightarrow>
          file_name f @ '':'' @ numberToString (int (file_size f)) @ '':'' @
          numberToString (file_lastModified f) @ '':preventSplit='' @
          booleanToString (ui_preventImageSplit st)
      | Paste m \<Rightarrow>
          ''paste:'' @ m @ '':preventSplit='' @ booleanToString (ui_preventImageSplit st))"

definition createConversionSource :: "app_state \<Rightarrow> client_file option \<Rightarrow> conversion_source option" where
  "createConversionSource st uploadFile =
     (if activeInputTab st = UploadTab then
        (case (case uploadFile of Some f \<Rightarrow> Some f | None \<Rightarrow> file' st) of
           None \<Rightarrow> None
         | Some sourceFile \<Rightarrow> Some (Upload sourceFile))
      else if trim (markdown st) = [] then None
      else Some (Paste (markdown st)))"

definition conversionRequest :: "app_state \<Rightarrow> conversion_source \<Rightarrow> format \<Rightarrow> client_request" where
  \<comment> \<open>The form \<^verbatim>\<open>convertToBlob\<close> builds.\<close>
  "conversionRequest st source outputFormat =
     \<lparr>rq_format = formatString outputFormat,
      rq_preventImageSplit = (if ui_preventImageSplit st then ''true'' else ''false''),
      rq_file = (case source of Upload f \<Rightarrow> Some f | Paste _ \<Rightarrow> None),
      rq_markdown = (case source of Upload _ \<Rightarrow> None | Paste m \<Rightarrow> Some m)\<rparr>"

definition convertToBlob ::
  "(client_request \<Rightarrow> fetch_result) \<Rightarrow> app_state \<Rightarrow> conversion_source \<Rightarrow> format \<Rightarrow> exn + blob" where
  \<comment> \<open>What the promise of \<^verbatim>\<open>convertToBlob\<close> settles with, once its request is sent.\<close>
  "convertToBlob fetch st source outputFormat =
     (case fetch (conversionRequest st source outputFormat) of
        Rejected e \<Rightarrow> Inl e
      | NotOk (Inl e) \<Rightarrow> Inl e
      | NotOk (Inr msg) \<Rightarrow> Inl (Exn (if msg \<noteq> [] then msg else ''Conversion failed''))
      | Ok b \<Rightarrow> b)"

definition errorMessage :: "exn \<Rightarrow> string" where
  \<comment> \<open>\<^verbatim>\<open>err.message || "Something went wrong"\<close>\<close>
  "errorMessage e = (case e of Exn msg \<Rightarrow> if msg \<noteq> [] then msg else ''Something went wrong'')"

text \<open>
  \<^verbatim>\<open>Promise.all\<close> over the two calls: each call runs to its \<^verbatim>\<open>fetch\<close> when it is
  made, so both requests are sent, the PDF one first, before either settles. When both
  reject, the rejection that comes first in time is the one caught; \<open>pdfFirst\<close> says
  which.
\<close>

definition convertBothFormats ::
  "(client_request \<Rightarrow> fetch_result) \<Rightarrow> bool \<Rightarrow> app_state \<Rightarrow> conversion_source \<Rightarrow>
     converted_bundle option \<times> app_state \<times> client_op list" where
  "convertBothFormats fetch pdfFirst st source =
     (let sent = [Fetch (conversionRequest st source Pdf), Fetch (conversionRequest st source Png)];
          st1 = st\<lparr>loading := True, error := []\<rparr>
      in case (convertToBlob fetch st source Pdf, convertToBlob fetch st source Png) of
           (Inr pdfBlob, Inr pngBlob) \<Rightarrow>
             (let bundle = \<lparr>sourceKey = getSourceKey st source, pdf = pdfBlob, png = pngBlob\<rparr>
              in (Some bundle, st1\<lparr>convertedBundle := Some bundle, loading := False\<rparr>, sent))
         | (Inl e1, Inr _) \<Rightarrow> (None, st1\<lparr>error := errorMessage e1, loading := False\<rparr>, sent)
         | (Inr _, Inl e2) \<Rightarrow> (None, st1\<lparr>error := errorMessage e2, loading := False\<rparr>, sent)
         | (Inl e1, Inl e2) \<Rightarrow>
             (None, st1\<lparr>error := errorMessage (if pdfFirst then e1 else e2), loading := False\<rparr>, sent))"

definition requestSingleConversion ::
  "(client_request \<Rightarrow> fetch_result) \<Rightarrow> app_state \<Rightarrow> blob option \<times> app_state \<times> client_op list" where
  "requestSingleConversion fetch st =
     (case createConversionSource st None of
        None \<Rightarrow> (None, st\<lparr>error := ''Please provide markdown content''\<rparr>, [])
      | Some source \<Rightarrow>
          (case (case convertedBundle st of
                   Some bundle \<Rightarrow> if sourceKey bundle = getSourceKey st source then Some bundle else None
                 | None \<Rightarrow> None) of
             Some bundle \<Rightarrow> (Some (if format st = Pdf then pdf bundle else png bundle), st, [])
           | None \<Rightarrow>
               (let st1 = st\<lparr>loading := True, error := []\<rparr>;
                    sent = [Fetch (conversionRequest st source (format st))]
                in case convertToBlob fetch st source (format st) of
                     Inr b \<Rightarrow> (Some b, st1\<lparr>loading := False\<rparr>, sent)
                   | Inl e \<Rightarrow> (None, st1\<lparr>error := errorMessage e, loading := False\<rparr>, sent))))"

definition getDownloadBaseName :: "conversion_source \<Rightarrow> string" where
  "getDownloadBaseName source =
     (case source of
        Upload f \<Rightarrow>
          (let fileName = trim (file_name f);
               lastDotIndex = lastIndexOf fileName ''.''
           in if lastDotIndex > 0 then slice0 fileName lastDotIndex
              else if length fileName > 0 then fileName
              else ''document'')
      | Paste _ \<Rightarrow> ''document'')"

definition downloadBlob :: "blob \<Rightarrow> format \<Rightarrow> string \<Rightarrow> client_op" where
  "downloadBlob b extension baseName = SaveAs (baseName @ ''.'' @ formatString extension) b"

definition handleDownload ::
  "(client_request \<Rightarrow> fetch_result) \<Rightarrow> bool \<Rightarrow> app_state \<Rightarrow> app_state \<times> client_op list" where
  "handleDownload fetch pdfFirst st =
     (case createConversionSource st None of
        None \<Rightarrow> (st\<lparr>error := ''Please provide markdown content''\<rparr>, [])
      | Some source \<Rightarrow>
          (let sourceKey' = getSourceKey st source;
               (bundle, st', sent) =
                 (case convertedBundle st of
                    Some cached \<Rightarrow>
                      if sourceKey cached = sourceKey' then (Some cached, st, [])
                      else convertBothFormats fetch pdfFirst st source
                  | None \<Rightarrow> convertBothFormats fetch pdfFirst st source)
           in case bundle of
                None \<Rightarrow> (st', sent)
              | Some b \<Rightarrow>
                  (let baseName = getDownloadBaseName source
                   in (st', sent @ [downloadBlob (pdf b) Pdf baseName,
                                    downloadBlob (png b) Png baseName]))))"

text \<open>The format buttons, and the check box of the settings panel.\<close>

definition selectFormat :: "format \<Rightarrow> app_state \<Rightarrow> app_state" where
  "selectFormat f st = st\<lparr>format := f\<rparr>"

definition changePreventImageSplit :: "bool \<Rightarrow> app_state \<Rightarrow> app_state" where
  "changePreventImageSplit checked st = st\<lparr>ui_preventImageSplit := checked, convertedBundle := None\<rparr>"


subsection \<open>Example inputs\<close>

text \<open>
  A state with a pasted text and no bundle, the same state with a bundle cached under the
  fingerprint of that text, and a server that answers every request with a fresh output.
\<close>

definition example_app :: app_state where
  "example_app =
     \<lparr>tab = Input PasteTab, lastInputTab = PasteTab, markdown = ''# Hi'', file' = None,
      format = Pdf, ui_preventImageSplit = True, loading = False, error = [],
      convertedBundle = None\<rparr>"

definition cached_app :: app_state where
  "cached_app =
     example_app\<lparr>convertedBundle :=
       Some \<lparr>sourceKey = ''paste:# Hi:preventSplit=true'', pdf = ''old pdf'', png = ''old png''\<rparr>\<rparr>"

definition example_fetch :: "client_request \<Rightarrow> fetch_result" where
  "example_fetch rq = Ok (Inr (''fresh '' @ rq_format rq))"


section \<open>The template and its style element\<close>

















section \<open>What a computation adds to the trace\<close>

lemma emits_ret: "emits P (ret x)"
  unfolding emits_def ret_def by (intro allI exI[of _ "[]"]) simp

lemma emits_throw: "emits P (throw e)"
  unfolding emits_def throw_def by (intro allI exI[of _ "[]"]) simp

lemma emits_effect: "P op \<Longrightarrow> emits P (effect op outcome)"
  unfolding emits_def effect_def by (intro allI exI[of _ "[op]"]) simp

lemma emits_bind:
  assumes m: "emits P m" and f: "\<And>x. emits P (f x)"
  shows "emits P (bind_io m f)"
  unfolding emits_def
proof
  fix s
  obtain r s1 where ms: "m s = (r, s1)" by (cases "m s")
  from m obtain ops1 where "snd (m s) = s\<lparr>trace := trace s @ ops1\<rparr>" and p1: "list_all P ops1"
    unfolding emits_def by blast
  with ms have s1: "s1 = s\<lparr>trace := trace s @ ops1\<rparr>" by simp
  show "\<exists>ops. snd (bind_io m f s) = s\<lparr>trace := trace s @ ops\<rparr> \<and> list_all P ops"
  proof (cases r)
    case (Inl e)
    with ms have "bind_io m f s = (Inl e, s1)" by (simp add: bind_io_def)
    with s1 p1 show ?thesis by auto
  next
    case (Inr x)
    with ms have b: "bind_io m f s = f x s1" by (simp add: bind_io_def)
    from f[of x] obtain ops2 where
      2: "snd (f x s1) = s1\<lparr>trace := trace s1 @ ops2\<rparr>" and p2: "list_all P ops2"
      unfolding emits_def by blast
    have "snd (bind_io m f s) = s\<lparr>trace := trace s @ (ops1 @ ops2)\<rparr>"
      using b s1 2 by simp
    moreover have "list_all P (ops1 @ ops2)" using p1 p2 by simp
    ultimately show ?thesis by blast
  qed
qed

lemma emits_capturePng: "emits (\<lambda>op. op \<noteq> PageClose) (capturePng env)"
  unfolding capturePng_def
  by (intro emits_bind emits_effect emits_throw) (auto intro: emits_effect emits_throw emits_bind split: option.splits)


lemma emits_printPdf: "emits (\<lambda>op. op \<noteq> PageClose) (printPdf env)"
  unfolding printPdf_def by (rule emits_effect) simp

lemma emits_renderPage: "emits (\<lambda>op. op \<noteq> PageClose) (renderPage env fullHtml fmt)"
  unfolding renderPage_def
  by (intro emits_bind emits_effect) (simp_all add: emits_printPdf emits_capturePng)

section \<open>The page renderer\<close>

lemma try_finally_effect:
  assumes "m s = (r, s')"
  shows "try_finally m (effect op out) s =
     (case out of Inl e \<Rightarrow> Inl e | Inr _ \<Rightarrow> r, s'\<lparr>trace := trace s' @ [op]\<rparr>)"
  using assms by (simp add: try_finally_def effect_def split: sum.splits)

text \<open>
  Claim C8. Once a conversion has opened its page (the markdown was parsed, a browser was
  acquired and \<open>newPage\<close> resolved), then whatever the work on the page yields, a value
  or an exception \<open>r\<close> thrown at any of its steps, the page is closed after the last of
  those steps and before the call settles: \<open>PageClose\<close> is the last call of the
  conversion, it is issued once, and the call settles with \<open>r\<close> (or with the exception
  of \<open>close\<close> itself, should closing throw).
\<close>

theorem page_closed_on_every_path:
  assumes "env_parse env md = Inr htmlBody"
    and "getBrowser env (s\<lparr>trace := trace s @ [MarkedParse md]\<rparr>) = (Inr b, s1)"
    and "env_newPage env = Inr ()"
  shows "\<exists>r ops.
     renderPage env
       (htmlTemplate htmlBody
          \<lparr>preventImageSplit = (case preventImageSplit_opt options of None \<Rightarrow> True | Some p \<Rightarrow> p)\<rparr>)
       fmt (s1\<lparr>trace := trace s1 @ [NewPage b]\<rparr>)
       = (r, s1\<lparr>trace := trace s1 @ NewPage b # ops\<rparr>) \<and>
     list_all (\<lambda>op. op \<noteq> PageClose) ops \<and>
     convertMarkdown env md fmt options s =
       (case env_close env of Inl e \<Rightarrow> Inl e | Inr _ \<Rightarrow> r,
        s1\<lparr>trace := trace s1 @ NewPage b # ops @ [PageClose]\<rparr>)"
proof -
  define html where "html = htmlTemplate htmlBody
          \<lparr>preventImageSplit = (case preventImageSplit_opt options of None \<Rightarrow> True | Some p \<Rightarrow> p)\<rparr>"
  define s2 where "s2 = s1\<lparr>trace := trace s1 @ [NewPage b]\<rparr>"
  obtain r s3 where run: "renderPage env html fmt s2 = (r, s3)"
    by (cases "renderPage env html fmt s2")
  from emits_renderPage[of env html fmt] obtain ops where
    "snd (renderPage env html fmt s2) = s2\<lparr>trace := trace s2 @ ops\<rparr>"
    and nc: "list_all (\<lambda>op. op \<noteq> PageClose) ops"
    unfolding emits_def by blast
  with run have s3: "s3 = s1\<lparr>trace := trace s1 @ NewPage b # ops\<rparr>"
    by (simp add: s2_def)
  have "convertMarkdown env md fmt options s =
      try_finally (renderPage env html fmt) (effect PageClose (env_close env)) s2"
    using assms by (simp add: convertMarkdown_def bind_io_def effect_def html_def s2_def)
  also have "\<dots> = (case env_close env of Inl e \<Rightarrow> Inl e | Inr _ \<Rightarrow> r,
        s3\<lparr>trace := trace s3 @ [PageClose]\<rparr>)"
    using run by (rule try_finally_effect)
  finally show ?thesis
    using run nc s3 unfolding html_def s2_def by auto
qed


theorem page_closed_on_every_path_witness:
  "env_parse (example_env\<lparr>env_screenshot := Inl (Exn ''capture failed'')\<rparr>) ''Hi'' = Inr ''<p>Hi</p>'' \<and>
   env_newPage (example_env\<lparr>env_screenshot := Inl (Exn ''capture failed'')\<rparr>) = Inr () \<and>
   convertMarkdown (example_env\<lparr>env_screenshot := Inl (Exn ''capture failed'')\<rparr>) ''Hi'' Png
       \<lparr>preventImageSplit_opt = Some False\<rparr> fresh_server =
     (Inl (Exn ''capture failed''),
      \<lparr>browserInstance = Some 0, launched = 1,
       trace =
        [MarkedParse ''Hi'',
         Launch True [''--no-sandbox'', ''--disable-setuid-sandbox''],
         NewPage 0,
         SetContent (htmlTemplate ''<p>Hi</p>'' \<lparr>preventImageSplit = False\<rparr>) ''networkidle0'',
         SetViewport 900 100,
         QuerySelector ''body'',
         BoundingBox,
         SetViewport 900 40,
         Screenshot ''png'' True False,
         PageClose]\<rparr>)"
proof -
  define env where "env = example_env\<lparr>env_screenshot := Inl (Exn ''capture failed'')\<rparr>"
  have p: "env_parse env ''Hi'' = Inr ''<p>Hi</p>''"
    by (simp add: env_def example_env_def)
  have g: "getBrowser env (fresh_server\<lparr>trace := trace fresh_server @ [MarkedParse ''Hi'']\<rparr>)
     = (Inr 0, \<lparr>browserInstance = Some 0, launched = 1,
         trace = [MarkedParse ''Hi'', Launch True [''--no-sandbox'', ''--disable-setuid-sandbox'']]\<rparr>)"
    by (simp add: getBrowser_def getBrowser_enter_def getBrowser_resume_def env_def example_env_def
        fresh_server_def)
  have n: "env_newPage env = Inr ()"
    by (simp add: env_def example_env_def)
  have run: "renderPage env (htmlTemplate ''<p>Hi</p>'' \<lparr>preventImageSplit = False\<rparr>) Png s
      = (Inl (Exn ''capture failed''),
         s\<lparr>trace := trace s @
           [SetContent (htmlTemplate ''<p>Hi</p>'' \<lparr>preventImageSplit = False\<rparr>) ''networkidle0'',
            SetViewport 900 100, QuerySelector ''body'', BoundingBox, SetViewport 900 40,
            Screenshot ''png'' True False]\<rparr>)" for s
    by (simp add: renderPage_def capturePng_def bind_io_def effect_def env_def example_env_def)
  have c: "env_close env = Inr ()"
    by (simp add: env_def example_env_def)
  from page_closed_on_every_path[OF p g n, of "\<lparr>preventImageSplit_opt = Some False\<rparr>" Png]
  obtain r ops where
    "renderPage env (htmlTemplate ''<p>Hi</p>'' \<lparr>preventImageSplit = False\<rparr>) Png
       \<lparr>browserInstance = Some 0, launched = 1,
        trace = [MarkedParse ''Hi'', Launch True [''--no-sandbox'', ''--disable-setuid-sandbox''],
                 NewPage 0]\<rparr>
     = (r, \<lparr>browserInstance = Some 0, launched = 1,
            trace = [MarkedParse ''Hi'', Launch True [''--no-sandbox'', ''--disable-setuid-sandbox'']]
               @ NewPage 0 # ops\<rparr>)"
    and "convertMarkdown env ''Hi'' Png \<lparr>preventImageSplit_opt = Some False\<rparr> fresh_server =
       (r, \<lparr>browserInstance = Some 0, launched = 1,
            trace = [MarkedParse ''Hi'', Launch True [''--no-sandbox'', ''--disable-setuid-sandbox'']]
               @ NewPage 0 # ops @ [PageClose]\<rparr>)"
    by (auto simp: c)
  then have "convertMarkdown env ''Hi'' Png \<lparr>preventImageSplit_opt = Some False\<rparr> fresh_server =
     (Inl (Exn ''capture failed''),
      \<lparr>browserInstance = Some 0, launched = 1,
       trace =
        [MarkedParse ''Hi'',
         Launch True [''--no-sandbox'', ''--disable-setuid-sandbox''],
         NewPage 0,
         SetContent (htmlTemplate ''<p>Hi</p>'' \<lparr>preventImageSplit = False\<rparr>) ''networkidle0'',
         SetViewport 900 100,
         QuerySelector ''body'',
         BoundingBox,
         SetViewport 900 40,
         Screenshot ''png'' True False,
         PageClose]\<rparr>)"
    by (simp add: run)
  with p n show ?thesis unfolding env_def by simp
qed

text \<open>
  Claim C5. A PNG conversion whose browser steps succeed and whose body measures a height
  \<open>h \<ge> 0\<close> sets the viewport to 900 by 100, queries the body element, asks for its
  bounding box, sets the viewport to 900 by \<open>\<lceil>h\<rceil> + 40\<close>, and then takes a full-page PNG
  screenshot with \<open>omitBackground\<close> false; it settles with whatever the screenshot
  yields and adds no error of its own. The height is one whose sum \<open>\<lceil>h\<rceil> + 40\<close> does not
  exceed \<open>2^53\<close>: up to there the code's sum of doubles is the exact sum, and every height
  a layout can report is far below. At the height zero the viewport becomes 900 by 40,
  the padding alone, and the capture is returned; at the height 12.5 it becomes 900 by 53.
\<close>

theorem png_capture_sequence:
  assumes "env_parse env md = Inr htmlBody"
    and "getBrowser env (s\<lparr>trace := trace s @ [MarkedParse md]\<rparr>) = (Inr b, s1)"
    and "env_newPage env = Inr ()"
    and "env_setContent env = Inr ()"
    and "env_setViewport1 env = Inr ()"
    and "env_query env = Inr (Some ())"
    and "env_boundingBox env = Inr (Some h)"
    and "0 \<le> h"
    and "\<lceil>h\<rceil> + 40 \<le> 2 ^ 53"
    and "env_setViewport2 env = Inr ()"
    and "env_close env = Inr ()"
  shows "convertMarkdown env md Png options s =
     (env_screenshot env,
      s1\<lparr>trace := trace s1 @
        [NewPage b,
         SetContent
           (htmlTemplate htmlBody
              \<lparr>preventImageSplit =
                 (case preventImageSplit_opt options of None \<Rightarrow> True | Some p \<Rightarrow> p)\<rparr>)
           ''networkidle0'',
         SetViewport 900 100,
         QuerySelector ''body'',
         BoundingBox,
         SetViewport 900 (\<lceil>h\<rceil> + 40),
         Screenshot ''png'' True False,
         PageClose]\<rparr>)"
  using assms
  by (simp add: convertMarkdown_def renderPage_def capturePng_def bind_io_def effect_def
      try_finally_def)

theorem png_capture_sequence_witness:
  "env_boundingBox example_env = Inr (Some 0) \<and> (0::real) \<le> 0 \<and>
   \<lceil>0::real\<rceil> + 40 \<le> 2 ^ 53 \<and>
   env_screenshot example_env = Inr ''PNG'' \<and>
   convertMarkdown example_env ''Hi'' Png \<lparr>preventImageSplit_opt = None\<rparr> fresh_server =
     (Inr ''PNG'',
      \<lparr>browserInstance = Some 0, launched = 1,
       trace =
        [MarkedParse ''Hi'',
         Launch True [''--no-sandbox'', ''--disable-setuid-sandbox''],
         NewPage 0,
         SetContent (htmlTemplate ''<p>Hi</p>'' \<lparr>preventImageSplit = True\<rparr>) ''networkidle0'',
         SetViewport 900 100,
         QuerySelector ''body'',
         BoundingBox,
         SetViewport 900 40,
         Screenshot ''png'' True False,
         PageClose]\<rparr>) \<and>
   (0::real) \<le> 25 / 2 \<and> \<lceil>25 / 2 :: real\<rceil> + 40 \<le> 2 ^ 53 \<and>
   convertMarkdown (example_env\<lparr>env_boundingBox := Inr (Some (25 / 2))\<rparr>) ''Hi'' Png
       \<lparr>preventImageSplit_opt = None\<rparr> fresh_server =
     (Inr ''PNG'',
      \<lparr>browserInstance = Some 0, launched = 1,
       trace =
        [MarkedParse ''Hi'',
         Launch True [''--no-sandbox'', ''--disable-setuid-sandbox''],
         NewPage 0,
         SetContent (htmlTemplate ''<p>Hi</p>'' \<lparr>preventImageSplit = True\<rparr>) ''networkidle0'',
         SetViewport 900 100,
         QuerySelector ''body'',
         BoundingBox,
         SetViewport 900 53,
         Screenshot ''png'' True False,
         PageClose]\<rparr>)"
proof -
  define env' where "env' = example_env\<lparr>env_boundingBox := Inr (Some (25 / 2))\<rparr>"
  have g: "getBrowser example_env (fresh_server\<lparr>trace := trace fresh_server @ [MarkedParse ''Hi'']\<rparr>)
     = (Inr 0, \<lparr>browserInstance = Some 0, launched = 1,
         trace = [MarkedParse ''Hi'', Launch True [''--no-sandbox'', ''--disable-setuid-sandbox'']]\<rparr>)"
    by (simp add: getBrowser_def getBrowser_enter_def getBrowser_resume_def example_env_def
        fresh_server_def)
  have g': "getBrowser env' (fresh_server\<lparr>trace := trace fresh_server @ [MarkedParse ''Hi'']\<rparr>)
     = (Inr 0, \<lparr>browserInstance = Some 0, launched = 1,
         trace = [MarkedParse ''Hi'', Launch True [''--no-sandbox'', ''--disable-setuid-sandbox'']]\<rparr>)"
    by (simp add: getBrowser_def getBrowser_enter_def getBrowser_resume_def example_env_def
        fresh_server_def env'_def)
  have b0: "\<lceil>0::real\<rceil> + 40 \<le> 2 ^ 53" by simp
  have c: "\<lceil>25 / 2 :: real\<rceil> = 13" by (simp add: ceiling_eq_iff)
  have b1: "\<lceil>25 / 2 :: real\<rceil> + 40 \<le> 2 ^ 53" unfolding c by simp
  have zero: "convertMarkdown example_env ''Hi'' Png \<lparr>preventImageSplit_opt = None\<rparr> fresh_server =
     (Inr ''PNG'',
      \<lparr>browserInstance = Some 0, launched = 1,
       trace =
        [MarkedParse ''Hi'',
         Launch True [''--no-sandbox'', ''--disable-setuid-sandbox''],
         NewPage 0,
         SetContent (htmlTemplate ''<p>Hi</p>'' \<lparr>preventImageSplit = True\<rparr>) ''networkidle0'',
         SetViewport 900 100,
         QuerySelector ''body'',
         BoundingBox,
         SetViewport 900 40,
         Screenshot ''png'' True False,
         PageClose]\<rparr>)"
    using png_capture_sequence[of example_env "''Hi''" "''<p>Hi</p>''" fresh_server 0 _ 0
        "\<lparr>preventImageSplit_opt = None\<rparr>", OF _ g]
    by (simp add: example_env_def)
  have frac: "convertMarkdown env' ''Hi'' Png \<lparr>preventImageSplit_opt = None\<rparr> fresh_server =
     (Inr ''PNG'',
      \<lparr>browserInstance = Some 0, launched = 1,
       trace =
        [MarkedParse ''Hi'',
         Launch True [''--no-sandbox'', ''--disable-setuid-sandbox''],
         NewPage 0,
         SetContent (htmlTemplate ''<p>Hi</p>'' \<lparr>preventImageSplit = True\<rparr>) ''networkidle0'',
         SetViewport 900 100,
         QuerySelector ''body'',
         BoundingBox,
         SetViewport 900 53,
         Screenshot ''png'' True False,
         PageClose]\<rparr>)"
    using png_capture_sequence[of env' "''Hi''" "''<p>Hi</p>''" fresh_server 0 _ "25 / 2"
        "\<lparr>preventImageSplit_opt = None\<rparr>", OF _ g' _ _ _ _ _ _ b1]
    by (simp add: example_env_def env'_def c)
  from zero frac b0 b1 show ?thesis
    unfolding env'_def by (simp add: example_env_def)
qed


section \<open>The endpoint\<close>

lemma emits_resolveMultipart: "emits (\<lambda>op. \<not> pipeline_op op) (resolveMultipart fd)"
  unfolding resolveMultipart_def Let_def
  by (auto intro!: emits_bind emits_effect emits_ret simp: pipeline_op_def
      split: option.splits form_value.splits)

lemma emits_resolveJson: "emits (\<lambda>op. \<not> pipeline_op op) (resolveJson body)"
  unfolding resolveJson_def
  by (auto intro!: emits_ret emits_throw split: sum.splits)

lemma emits_resolveRequest: "emits (\<lambda>op. \<not> pipeline_op op) (resolveRequest req)"
proof (cases "str_includes (case contentType req of None \<Rightarrow> [] | Some c \<Rightarrow> c) ''multipart/form-data''")
  case True
  have "emits (\<lambda>op. \<not> pipeline_op op) (bind_io (effect FormDataRead (formData req)) resolveMultipart)"
    by (intro emits_bind emits_effect emits_resolveMultipart) (simp add: pipeline_op_def)
  with True show ?thesis by (simp add: resolveRequest_def)
next
  case False
  have "emits (\<lambda>op. \<not> pipeline_op op) (bind_io (effect JsonRead (jsonBody req)) resolveJson)"
    by (intro emits_bind emits_effect emits_resolveJson) (simp add: pipeline_op_def)
  with False show ?thesis by (simp add: resolveRequest_def)
qed

lemma filter_emitted:
  assumes "list_all (\<lambda>op. \<not> P op) ops"
  shows "filter P ops = []"
  using assms by (induction ops) simp_all

text \<open>
  Claim C6. A multipart request whose \<open>file\<close> field is a file of more than 5 MiB is
  answered with status 400 and the error \<open>File too large (max 5MB)\<close>. The only call the
  handler has made by then is reading the form: the text of the file is not read and
  nothing of the rendering pipeline runs, and the browser variable is as it was.
\<close>

theorem oversized_upload_rejected:
  assumes "contentType req = Some ct"
    and "str_includes ct ''multipart/form-data''"
    and "formData req = Inr fd"
    and "map_of fd ''file'' = Some (FFile f)"
    and "upload_size f > 5 * 1024 * 1024"
  shows "POST env req s =
     (Inr (ErrorResponse 400 ''File too large (max 5MB)''), s\<lparr>trace := trace s @ [FormDataRead]\<rparr>)"
  using assms
  by (simp add: POST_def resolveRequest_def resolveMultipart_def MAX_SIZE_def try_catch_def
      bind_io_def effect_def ret_def)

theorem oversized_upload_rejected_witness:
  "contentType oversized_request = Some ''multipart/form-data; boundary=x'' \<and>
   str_includes ''multipart/form-data; boundary=x'' ''multipart/form-data'' \<and>
   upload_size \<lparr>upload_size = 6291456, upload_text = Inr ''# Big''\<rparr> > 5 * 1024 * 1024 \<and>
   POST example_env oversized_request fresh_server =
     (Inr (ErrorResponse 400 ''File too large (max 5MB)''),
      \<lparr>browserInstance = None, launched = 0, trace = [FormDataRead]\<rparr>)"
proof -
  have ct: "contentType oversized_request = Some ''multipart/form-data; boundary=x''"
    by (simp add: oversized_request_def)
  have inc: "str_includes ''multipart/form-data; boundary=x'' ''multipart/form-data''"
    unfolding str_includes_def by (rule prefix_imp_sublist) simp
  have fd: "formData oversized_request = Inr [(''format'', FString ''png''),
      (''file'', FFile \<lparr>upload_size = 6291456, upload_text = Inr ''# Big''\<rparr>)]"
    by (simp add: oversized_request_def)
  have big: "upload_size \<lparr>upload_size = 6291456, upload_text = Inr ''# Big''\<rparr> > 5 * 1024 * 1024"
    by simp
  show ?thesis
    using oversized_upload_rejected[OF ct inc fd _ big, of example_env fresh_server] ct inc
    by (simp add: fresh_server_def)
qed

text \<open>
  Claim C7. Whenever the handler, multipart or JSON, resolves the request to a markdown
  string that \<open>trim\<close> empties, with whichever format, it answers with status 400 and
  the error \<open>No markdown content provided\<close>, in the state resolving the request left;
  no call of the rendering pipeline has been added to the trace.
\<close>

theorem empty_markdown_rejected:
  assumes "resolveRequest req s = (Inr (Inr (JsString m, fmt, p)), s')"
    and "trim m = []"
  shows "POST env req s = (Inr (ErrorResponse 400 ''No markdown content provided''), s') \<and>
         filter pipeline_op (trace s') = filter pipeline_op (trace s)"
proof
  show "POST env req s = (Inr (ErrorResponse 400 ''No markdown content provided''), s')"
    using assms by (simp add: POST_def try_catch_def bind_io_def ret_def)
  from emits_resolveRequest[of req] obtain ops where
    "snd (resolveRequest req s) = s\<lparr>trace := trace s @ ops\<rparr>"
    and "list_all (\<lambda>op. \<not> pipeline_op op) ops"
    unfolding emits_def by blast
  with assms(1) show "filter pipeline_op (trace s') = filter pipeline_op (trace s)"
    by (simp add: filter_emitted)
qed

theorem empty_markdown_rejected_witness:
  "resolveRequest blank_request fresh_server =
     (Inr (Inr (JsString [CHR 0x20, CHR 0x0A, CHR 0x09], Png, True)),
      \<lparr>browserInstance = None, launched = 0, trace = [JsonRead]\<rparr>) \<and>
   trim [CHR 0x20, CHR 0x0A, CHR 0x09] = [] \<and>
   POST example_env blank_request fresh_server =
     (Inr (ErrorResponse 400 ''No markdown content provided''),
      \<lparr>browserInstance = None, launched = 0, trace = [JsonRead]\<rparr>)"
proof -
  have ni: "\<not> str_includes ''application/json'' ''multipart/form-data''"
    unfolding str_includes_def by code_simp
  have r: "resolveRequest blank_request fresh_server =
     (Inr (Inr (JsString [CHR 0x20, CHR 0x0A, CHR 0x09], Png, True)),
      \<lparr>browserInstance = None, launched = 0, trace = [JsonRead]\<rparr>)"
    using ni
    by (simp add: resolveRequest_def resolveJson_def getProperty_def blank_request_def
        fresh_server_def bind_io_def effect_def ret_def)
  have t: "trim [CHR 0x20, CHR 0x0A, CHR 0x09] = []"
    by (simp add: trim_def isWhiteSpace_def)
  from empty_markdown_rejected[OF r t, of example_env] r t show ?thesis by simp
qed

text \<open>
  Claim C9. In a multipart request whose \<open>file\<close> field is a file of size 0 and whose
  \<open>markdown\<close> field is a non-empty string, the file is passed over, its text is never
  read, and the markdown the handler goes on with is the text field.
\<close>

theorem empty_file_prefers_text:
  assumes "contentType req = Some ct"
    and "str_includes ct ''multipart/form-data''"
    and "formData req = Inr fd"
    and "map_of fd ''file'' = Some (FFile f)"
    and "upload_size f = 0"
    and "map_of fd ''markdown'' = Some (FString t)"
    and "t \<noteq> []"
  shows "resolveRequest req s =
     (Inr (Inr (JsString t,
                if map_of fd ''format'' = Some (FString ''png'') then Png else Pdf,
                map_of fd ''preventImageSplit'' \<noteq> Some (FString ''false''))),
      s\<lparr>trace := trace s @ [FormDataRead]\<rparr>)"
  using assms
  by (simp add: resolveRequest_def resolveMultipart_def bind_io_def effect_def ret_def)

theorem empty_file_prefers_text_witness:
  "upload_size \<lparr>upload_size = 0, upload_text = Inr []\<rparr> = 0 \<and>
   ''# Hi'' \<noteq> [] \<and>
   resolveRequest empty_file_request fresh_server =
     (Inr (Inr (JsString ''# Hi'', Png, True)),
      \<lparr>browserInstance = None, launched = 0, trace = [FormDataRead]\<rparr>)"
proof -
  have ct: "contentType empty_file_request = Some ''multipart/form-data; boundary=x''"
    by (simp add: empty_file_request_def)
  have inc: "str_includes ''multipart/form-data; boundary=x'' ''multipart/form-data''"
    unfolding str_includes_def by (rule prefix_imp_sublist) simp
  have fd: "formData empty_file_request =
      Inr [(''file'', FFile \<lparr>upload_size = 0, upload_text = Inr []\<rparr>),
           (''markdown'', FString ''# Hi''), (''format'', FString ''png'')]"
    by (simp add: empty_file_request_def)
  show ?thesis
    using empty_file_prefers_text[OF ct inc fd, of "\<lparr>upload_size = 0, upload_text = Inr []\<rparr>"
        "''# Hi''" fresh_server]
    by (simp add: fresh_server_def)
qed

section \<open>Two calls of getBrowser\<close>

text \<open>
  Claim C2. With no browser launched yet, let two calls each run their first segment
  before either launch has settled. Both find the variable empty, so two browser
  processes are launched, and the two calls return different browsers: the first the
  process 0, the second the process 1, which is also the one the variable keeps. The
  claim that concurrent callers share one session fails on the code.
\<close>

theorem getBrowser_race:
  "run_calls (env\<lparr>env_launch := \<lambda>_. None\<rparr>) [A, B, A, B]
     \<lparr>callA = NotCalled, callB = NotCalled,
      server = \<lparr>browserInstance = None, launched = 0, trace = []\<rparr>\<rparr> =
   \<lparr>callA = Settled (Inr 0), callB = Settled (Inr 1),
    server = \<lparr>browserInstance = Some 1, launched = 2,
      trace = [Launch True [''--no-sandbox'', ''--disable-setuid-sandbox''],
               Launch True [''--no-sandbox'', ''--disable-setuid-sandbox'']]\<rparr>\<rparr>"
  by (simp add: step_call_def getBrowser_enter_def getBrowser_resume_def)

text \<open>By contrast, a call made after the first has settled returns the same browser.\<close>

lemma getBrowser_sequential:
  "run_calls (env\<lparr>env_launch := \<lambda>_. None, env_connected := \<lambda>_. True\<rparr>) [A, A, B]
     \<lparr>callA = NotCalled, callB = NotCalled,
      server = \<lparr>browserInstance = None, launched = 0, trace = []\<rparr>\<rparr> =
   \<lparr>callA = Settled (Inr 0), callB = Settled (Inr 0),
    server = \<lparr>browserInstance = Some 0, launched = 1,
      trace = [Launch True [''--no-sandbox'', ''--disable-setuid-sandbox'']]\<rparr>\<rparr>"
  by (simp add: step_call_def getBrowser_enter_def getBrowser_resume_def)


section \<open>The client\<close>

subsection \<open>The name of the saved files\<close>

lemma lastIndexFrom_none:
  "(\<And>i. i \<le> n \<Longrightarrow> \<not> prefix pat (drop i s)) \<Longrightarrow> lastIndexFrom pat s n = - 1"
  by (induction n) simp_all

lemma lastIndexFrom_at:
  assumes "prefix pat (drop k s)"
    and "\<And>i. k < i \<Longrightarrow> i \<le> n \<Longrightarrow> \<not> prefix pat (drop i s)"
    and "k \<le> n"
  shows "lastIndexFrom pat s n = int k"
  using assms(2,3)
proof (induction n)
  case 0
  with assms(1) show ?case by simp
next
  case (Suc n)
  show ?case
  proof (cases "k = Suc n")
    case True
    with assms(1) show ?thesis by simp
  next
    case False
    with Suc.prems have "k \<le> n" by simp
    moreover from False Suc.prems have "\<not> prefix pat (drop (Suc n) s)" by simp
    ultimately show ?thesis using Suc by simp
  qed
qed

lemma prefix_single_drop: "prefix [c] (drop i s) \<Longrightarrow> c \<in> set (drop i s)"
  by (auto simp: prefix_def)

lemma lastIndexOf_absent: "c \<notin> set s \<Longrightarrow> lastIndexOf s [c] = - 1"
  unfolding lastIndexOf_def
  by (rule lastIndexFrom_none) (auto dest!: prefix_single_drop in_set_dropD)

lemma lastIndexOf_last:
  assumes "c \<notin> set ext"
  shows "lastIndexOf (stem @ c # ext) [c] = int (length stem)"
  unfolding lastIndexOf_def
proof (rule lastIndexFrom_at)
  show "prefix [c] (drop (length stem) (stem @ c # ext))" by simp
  show "length stem \<le> length (stem @ c # ext)" by simp
  fix i assume "length stem < i"
  then obtain j where "i = length stem + Suc j"
    using less_imp_Suc_add by auto
  then have "drop i (stem @ c # ext) = drop j ext" by simp
  with assms show "\<not> prefix [c] (drop i (stem @ c # ext))"
    by (auto dest!: prefix_single_drop in_set_dropD)
qed

text \<open>
  Claim C10, as amended. Let \<open>n\<close> be the trimmed name of the uploaded file. If \<open>n\<close> is
  empty the base name is \<open>document\<close>; if \<open>n\<close> is not empty and has no dot it is \<open>n\<close>;
  and if the last dot of \<open>n\<close> stands after \<open>stem\<close>, the base name is \<open>stem\<close> when
  \<open>stem\<close> is not empty (the dot is at a position greater than zero) and the whole of
  \<open>n\<close> when it is empty (the dot leads the name). A pasted text is always saved as
  \<open>document\<close>.
\<close>

theorem download_base_name:
  assumes "trim (file_name f) = n"
  shows "(n = [] \<longrightarrow> getDownloadBaseName (Upload f) = ''document'') \<and>
         (n \<noteq> [] \<and> CHR ''.'' \<notin> set n \<longrightarrow> getDownloadBaseName (Upload f) = n) \<and>
         (\<forall>stem ext. n = stem @ ''.'' @ ext \<and> CHR ''.'' \<notin> set ext \<longrightarrow>
            getDownloadBaseName (Upload f) = (if stem = [] then n else stem)) \<and>
         getDownloadBaseName (Paste m) = ''document''"
proof (intro conjI allI impI)
  assume "n = []"
  with assms show "getDownloadBaseName (Upload f) = ''document''"
    by (simp add: getDownloadBaseName_def lastIndexOf_def)
next
  assume "n \<noteq> [] \<and> CHR ''.'' \<notin> set n"
  with assms show "getDownloadBaseName (Upload f) = n"
    by (simp add: getDownloadBaseName_def lastIndexOf_absent)
next
  fix stem ext
  assume "n = stem @ ''.'' @ ext \<and> CHR ''.'' \<notin> set ext"
  then have n: "n = stem @ CHR ''.'' # ext" and "CHR ''.'' \<notin> set ext" by simp_all
  then have "lastIndexOf n ''.'' = int (length stem)"
    by (simp add: lastIndexOf_last)
  with assms n show "getDownloadBaseName (Upload f) = (if stem = [] then n else stem)"
    by (simp add: getDownloadBaseName_def slice0_def)
next
  show "getDownloadBaseName (Paste m) = ''document''"
    by (simp add: getDownloadBaseName_def)
qed

theorem download_base_name_witness:
  "trim ''  notes.v2.md '' = ''notes.v2'' @ ''.'' @ ''md'' \<and> CHR ''.'' \<notin> set ''md'' \<and>
   getDownloadBaseName
     (Upload \<lparr>file_name = ''  notes.v2.md '', file_size = 12, file_lastModified = 0\<rparr>) = ''notes.v2''"
proof -
  have t: "trim (file_name \<lparr>file_name = ''  notes.v2.md '', file_size = 12, file_lastModified = 0\<rparr>)
      = ''notes.v2.md''"
    by (simp add: trim_def isWhiteSpace_def)
  have "\<forall>stem ext. ''notes.v2.md'' = stem @ ''.'' @ ext \<and> CHR ''.'' \<notin> set ext \<longrightarrow>
      getDownloadBaseName
        (Upload \<lparr>file_name = ''  notes.v2.md '', file_size = 12, file_lastModified = 0\<rparr>)
      = (if stem = [] then ''notes.v2.md'' else stem)"
    using download_base_name[OF t, of "[]"] by (elim conjE)
  from this[rule_format, of "''notes.v2''" "''md''"] t show ?thesis by simp
qed

text \<open>
  The claim as stated has a name whose only dot leads it fall back to \<open>document\<close>. The
  code keeps it: an upload named \<open>.md\<close> is saved under the base name \<open>.md\<close>.
\<close>

theorem leading_dot_name_kept:
  "getDownloadBaseName (Upload \<lparr>file_name = ''.md'', file_size = 12, file_lastModified = 0\<rparr>)
     = ''.md'' \<and>
   getDownloadBaseName (Upload \<lparr>file_name = ''.md'', file_size = 12, file_lastModified = 0\<rparr>)
     \<noteq> ''document''"
  by (simp add: getDownloadBaseName_def trim_def isWhiteSpace_def lastIndexOf_def)


subsection \<open>The fingerprint and the cached bundle\<close>

lemma getSourceKey_flag:
  "p \<noteq> q \<Longrightarrow>
   getSourceKey (st\<lparr>ui_preventImageSplit := p\<rparr>) source \<noteq>
   getSourceKey (st'\<lparr>ui_preventImageSplit := q\<rparr>) source"
  by (cases source; cases p; cases q) (simp_all add: getSourceKey_def booleanToString_def)

lemma createConversionSource_frame:
  "createConversionSource (st\<lparr>ui_preventImageSplit := p\<rparr>) u = createConversionSource st u"
  "createConversionSource (selectFormat f st) u = createConversionSource st u"
  by (simp_all add: createConversionSource_def activeInputTab_def selectFormat_def
      split: tab.splits option.splits)

lemma getSourceKey_selectFormat:
  "getSourceKey (selectFormat f st) source = getSourceKey st source"
  by (simp add: selectFormat_def getSourceKey_def split: conversion_source.splits)

text \<open>
  Claim C3. Take a state whose cached bundle hits: its key is the fingerprint of the
  current source. Changing \<open>preventImageSplit\<close> to the other value, with the content
  as it is, changes the fingerprint, so the bundle no longer hits: the check box's
  handler drops the bundle, and even with the bundle still in place a preview would send
  its request. Selecting a preview format leaves the fingerprint and the bundle as they
  are, and the preview is served from the bundle without any request.
\<close>

theorem fingerprint_sensitivity:
  assumes src: "createConversionSource st None = Some source"
    and hit: "convertedBundle st = Some bundle"
    and key: "sourceKey bundle = getSourceKey st source"
    and chg: "p \<noteq> ui_preventImageSplit st"
  shows "getSourceKey (st\<lparr>ui_preventImageSplit := p\<rparr>) source \<noteq> getSourceKey st source \<and>
         convertedBundle (changePreventImageSplit p st) = None \<and>
         requestSingleConversion fetch (st\<lparr>ui_preventImageSplit := p\<rparr>) =
           (let st' = st\<lparr>ui_preventImageSplit := p\<rparr>;
                sent = [Fetch (conversionRequest st' source (format st))]
            in case convertToBlob fetch st' source (format st) of
                 Inr b \<Rightarrow> (Some b, st'\<lparr>loading := False, error := []\<rparr>, sent)
               | Inl e \<Rightarrow> (None, st'\<lparr>loading := False, error := errorMessage e\<rparr>, sent)) \<and>
         getSourceKey (selectFormat f st) source = getSourceKey st source \<and>
         convertedBundle (selectFormat f st) = Some bundle \<and>
         requestSingleConversion fetch (selectFormat f st) =
           (Some (if f = Pdf then pdf bundle else png bundle), selectFormat f st, [])"
proof (intro conjI)
  have "getSourceKey (st\<lparr>ui_preventImageSplit := p\<rparr>) source \<noteq>
        getSourceKey (st\<lparr>ui_preventImageSplit := ui_preventImageSplit st\<rparr>) source"
    using chg by (rule getSourceKey_flag)
  then show ne: "getSourceKey (st\<lparr>ui_preventImageSplit := p\<rparr>) source \<noteq> getSourceKey st source"
    by simp
  show "convertedBundle (changePreventImageSplit p st) = None"
    by (simp add: changePreventImageSplit_def)
  show "requestSingleConversion fetch (st\<lparr>ui_preventImageSplit := p\<rparr>) =
           (let st' = st\<lparr>ui_preventImageSplit := p\<rparr>;
                sent = [Fetch (conversionRequest st' source (format st))]
            in case convertToBlob fetch st' source (format st) of
                 Inr b \<Rightarrow> (Some b, st'\<lparr>loading := False, error := []\<rparr>, sent)
               | Inl e \<Rightarrow> (None, st'\<lparr>loading := False, error := errorMessage e\<rparr>, sent))"
    using src hit key ne
    by (simp add: requestSingleConversion_def createConversionSource_frame Let_def
        split: sum.splits)
  show "getSourceKey (selectFormat f st) source = getSourceKey st source"
    by (rule getSourceKey_selectFormat)
  show "convertedBundle (selectFormat f st) = Some bundle"
    using hit by (simp add: selectFormat_def)
  show "requestSingleConversion fetch (selectFormat f st) =
           (Some (if f = Pdf then pdf bundle else png bundle), selectFormat f st, [])"
  proof -
    have "convertedBundle (selectFormat f st) = Some bundle"
      and "format (selectFormat f st) = f"
      using hit by (simp_all add: selectFormat_def)
    with src key show ?thesis
      by (simp add: requestSingleConversion_def createConversionSource_frame
          getSourceKey_selectFormat)
  qed
qed

theorem fingerprint_sensitivity_witness:
  "createConversionSource cached_app None = Some (Paste ''# Hi'') \<and>
   getSourceKey cached_app (Paste ''# Hi'') = ''paste:# Hi:preventSplit=true'' \<and>
   getSourceKey (cached_app\<lparr>ui_preventImageSplit := False\<rparr>) (Paste ''# Hi'')
     = ''paste:# Hi:preventSplit=false'' \<and>
   snd (snd (requestSingleConversion example_fetch (cached_app\<lparr>ui_preventImageSplit := False\<rparr>)))
     = [Fetch \<lparr>rq_format = ''pdf'', rq_preventImageSplit = ''false'', rq_file = None,
                rq_markdown = Some ''# Hi''\<rparr>] \<and>
   requestSingleConversion example_fetch (selectFormat Png cached_app)
     = (Some ''old png'', selectFormat Png cached_app, [])"
proof -
  have src: "createConversionSource cached_app None = Some (Paste ''# Hi'')"
    by (simp add: createConversionSource_def activeInputTab_def cached_app_def example_app_def
        trim_def isWhiteSpace_def)
  have hit: "convertedBundle cached_app =
      Some \<lparr>sourceKey = ''paste:# Hi:preventSplit=true'', pdf = ''old pdf'', png = ''old png''\<rparr>"
    by (simp add: cached_app_def)
  have key: "sourceKey \<lparr>sourceKey = ''paste:# Hi:preventSplit=true'', pdf = ''old pdf'', png = ''old png''\<rparr>
      = getSourceKey cached_app (Paste ''# Hi'')"
    by (simp add: getSourceKey_def booleanToString_def cached_app_def example_app_def)
  have chg: "False \<noteq> ui_preventImageSplit cached_app"
    by (simp add: cached_app_def example_app_def)
  have fmt: "format cached_app = Pdf"
    by (simp add: cached_app_def example_app_def)
  have k2: "getSourceKey (cached_app\<lparr>ui_preventImageSplit := False\<rparr>) (Paste ''# Hi'')
     = ''paste:# Hi:preventSplit=false''"
    by (simp add: getSourceKey_def booleanToString_def)
  from fingerprint_sensitivity[OF src hit key chg, of example_fetch Png]
  show ?thesis
    using src key k2 fmt
    by (simp add: Let_def convertToBlob_def example_fetch_def conversionRequest_def
        formatString_def)
qed


subsection \<open>Downloading both formats\<close>

text \<open>
  The claim as stated has every download replace the cached bundle, also when a bundle
  with an equal fingerprint is cached. The code does not: with such a bundle cached, and
  a server that would answer with fresh outputs, the download sends no request, leaves
  the state as it is and saves the cached outputs.
\<close>

theorem download_reuses_equal_fingerprint:
  "convertedBundle cached_app =
     Some \<lparr>sourceKey = ''paste:# Hi:preventSplit=true'', pdf = ''old pdf'', png = ''old png''\<rparr> \<and>
   getSourceKey cached_app (Paste ''# Hi'') = ''paste:# Hi:preventSplit=true'' \<and>
   example_fetch (conversionRequest cached_app (Paste ''# Hi'') Pdf) = Ok (Inr ''fresh pdf'') \<and>
   handleDownload example_fetch True cached_app =
     (cached_app, [SaveAs ''document.pdf'' ''old pdf'', SaveAs ''document.png'' ''old png''])"
  by (simp add: handleDownload_def createConversionSource_def activeInputTab_def getSourceKey_def
      booleanToString_def getDownloadBaseName_def downloadBlob_def formatString_def
      conversionRequest_def example_fetch_def cached_app_def example_app_def trim_def
      isWhiteSpace_def)

text \<open>
  Claim C1, as amended. For a download with content present: when the cached bundle's key
  equals the fingerprint computed at the call, the bundle is reused: nothing is requested,
  the state is unchanged and the two cached outputs are saved. Otherwise the PDF and the
  PNG conversion are both requested, the two requests being the first things the handler
  does, and when both succeed their two outputs are stored together under the fingerprint
  computed at the call, in place of whatever bundle was cached, and saved.
\<close>

theorem download_both_formats:
  assumes src: "createConversionSource st None = Some source"
  shows "(\<forall>cached. convertedBundle st = Some cached \<and> sourceKey cached = getSourceKey st source \<longrightarrow>
            handleDownload fetch pdfFirst st =
              (st, [downloadBlob (pdf cached) Pdf (getDownloadBaseName source),
                    downloadBlob (png cached) Png (getDownloadBaseName source)])) \<and>
         ((\<forall>cached. convertedBundle st = Some cached \<longrightarrow> sourceKey cached \<noteq> getSourceKey st source) \<longrightarrow>
            take 2 (snd (handleDownload fetch pdfFirst st)) =
              [Fetch (conversionRequest st source Pdf), Fetch (conversionRequest st source Png)] \<and>
            (\<forall>pdfBlob pngBlob.
               convertToBlob fetch st source Pdf = Inr pdfBlob \<and>
               convertToBlob fetch st source Png = Inr pngBlob \<longrightarrow>
               handleDownload fetch pdfFirst st =
                 (st\<lparr>loading := False, error := [],
                     convertedBundle :=
                       Some \<lparr>sourceKey = getSourceKey st source, pdf = pdfBlob, png = pngBlob\<rparr>\<rparr>,
                  [Fetch (conversionRequest st source Pdf),
                   Fetch (conversionRequest st source Png),
                   downloadBlob pdfBlob Pdf (getDownloadBaseName source),
                   downloadBlob pngBlob Png (getDownloadBaseName source)])))"
proof (intro conjI allI impI)
  fix cached
  assume "convertedBundle st = Some cached \<and> sourceKey cached = getSourceKey st source"
  with src show "handleDownload fetch pdfFirst st =
              (st, [downloadBlob (pdf cached) Pdf (getDownloadBaseName source),
                    downloadBlob (png cached) Png (getDownloadBaseName source)])"
    by (simp add: handleDownload_def Let_def)
next
  assume miss: "\<forall>cached. convertedBundle st = Some cached \<longrightarrow>
      sourceKey cached \<noteq> getSourceKey st source"
  have run: "handleDownload fetch pdfFirst st =
      (case convertBothFormats fetch pdfFirst st source of
         (None, st', sent) \<Rightarrow> (st', sent)
       | (Some b, st', sent) \<Rightarrow>
           (st', sent @ [downloadBlob (pdf b) Pdf (getDownloadBaseName source),
                         downloadBlob (png b) Png (getDownloadBaseName source)]))"
  proof (cases "convertedBundle st")
    case None
    with src show ?thesis
      by (simp add: handleDownload_def Let_def split: prod.splits option.splits)
  next
    case (Some cached)
    with miss have "sourceKey cached \<noteq> getSourceKey st source" by simp
    with Some src show ?thesis
      by (simp add: handleDownload_def Let_def split: prod.splits option.splits)
  qed
  show "take 2 (snd (handleDownload fetch pdfFirst st)) =
      [Fetch (conversionRequest st source Pdf), Fetch (conversionRequest st source Png)]"
    unfolding run by (simp add: convertBothFormats_def Let_def split: sum.splits)
  fix pdfBlob pngBlob
  assume "convertToBlob fetch st source Pdf = Inr pdfBlob \<and>
          convertToBlob fetch st source Png = Inr pngBlob"
  then show "handleDownload fetch pdfFirst st =
                 (st\<lparr>loading := False, error := [],
                     convertedBundle :=
                       Some \<lparr>sourceKey = getSourceKey st source, pdf = pdfBlob, png = pngBlob\<rparr>\<rparr>,
                  [Fetch (conversionRequest st source Pdf),
                   Fetch (conversionRequest st source Png),
                   downloadBlob pdfBlob Pdf (getDownloadBaseName source),
                   downloadBlob pngBlob Png (getDownloadBaseName source)])"
    unfolding run by (simp add: convertBothFormats_def Let_def)
qed

theorem download_both_formats_witness:
  "createConversionSource example_app None = Some (Paste ''# Hi'') \<and>
   convertedBundle example_app = None \<and>
   convertToBlob example_fetch example_app (Paste ''# Hi'') Pdf = Inr ''fresh pdf'' \<and>
   convertToBlob example_fetch example_app (Paste ''# Hi'') Png = Inr ''fresh png'' \<and>
   handleDownload example_fetch True example_app =
     (example_app\<lparr>convertedBundle :=
         Some \<lparr>sourceKey = ''paste:# Hi:preventSplit=true'', pdf = ''fresh pdf'', png = ''fresh png''\<rparr>\<rparr>,
      [Fetch \<lparr>rq_format = ''pdf'', rq_preventImageSplit = ''true'', rq_file = None,
              rq_markdown = Some ''# Hi''\<rparr>,
       Fetch \<lparr>rq_format = ''png'', rq_preventImageSplit = ''true'', rq_file = None,
              rq_markdown = Some ''# Hi''\<rparr>,
       SaveAs ''document.pdf'' ''fresh pdf'',
       SaveAs ''document.png'' ''fresh png''])"
proof -
  have src: "createConversionSource example_app None = Some (Paste ''# Hi'')"
    by (simp add: createConversionSource_def activeInputTab_def example_app_def trim_def
        isWhiteSpace_def)
  have none: "convertedBundle example_app = None"
    by (simp add: example_app_def)
  have p: "convertToBlob example_fetch example_app (Paste ''# Hi'') Pdf = Inr ''fresh pdf''"
    and q: "convertToBlob example_fetch example_app (Paste ''# Hi'') Png = Inr ''fresh png''"
    by (simp_all add: convertToBlob_def example_fetch_def conversionRequest_def formatString_def)
  have "handleDownload example_fetch True example_app =
      (example_app\<lparr>loading := False, error := [],
          convertedBundle :=
            Some \<lparr>sourceKey = getSourceKey example_app (Paste ''# Hi''),
                  pdf = ''fresh pdf'', png = ''fresh png''\<rparr>\<rparr>,
       [Fetch (conversionRequest example_app (Paste ''# Hi'') Pdf),
        Fetch (conversionRequest example_app (Paste ''# Hi'') Png),
        downloadBlob ''fresh pdf'' Pdf (getDownloadBaseName (Paste ''# Hi'')),
        downloadBlob ''fresh png'' Png (getDownloadBaseName (Paste ''# Hi''))])"
    using download_both_formats[OF src, of example_fetch True] none p q by simp
  then show ?thesis
    using src none p q
    by (simp add: getSourceKey_def booleanToString_def conversionRequest_def formatString_def
        downloadBlob_def getDownloadBaseName_def example_app_def)
qed

end
